theory Spec2Isabelle
  imports Main
begin

section \<open>Data model\<close>

text \<open>
  The token lifecycle of \<^verbatim>\<open>src/main.py\<close> (FastAPI application) over the tables of
  \<^verbatim>\<open>src/models.py\<close>.  Python exceptions are values of the type \<open>error\<close>; every
  operation that touches the module-level sets or the database takes the state and
  returns it, also when it raises: what was mutated before the \<^verbatim>\<open>raise\<close> stays mutated.
\<close>

subsection \<open>Claim values and payloads\<close>

text \<open>
  The values a payload entry takes in this program: \<^verbatim>\<open>None\<close>, a \<^verbatim>\<open>str\<close>, an \<^verbatim>\<open>int\<close>
  (timestamps in whole seconds, ids) and a list of \<^verbatim>\<open>str\<close> (the permissions).
  A payload is a Python \<^verbatim>\<open>dict\<close>; \<^verbatim>\<open>payload.get(k)\<close> is \<open>payload k\<close>, with \<open>None\<close> for a
  missing key.
\<close>

datatype claim = CNone | CStr string | CInt int | CStrs "string list"

type_synonym payload = "string \<rightharpoonup> claim"

text \<open>
  A token string as it reaches the endpoints is either the compact serialisation of a
  signed token (\<open>Jws alg key payload\<close>: header algorithm, the key pair whose private key
  signed it, the payload) or any other string (\<open>Raw\<close>), the empty string included.
\<close>

datatype token = Raw string | Jws (jws_alg: string) (jws_key: nat) (jws_payload: payload)

text \<open>Truthiness of \<^verbatim>\<open>str | None\<close>: \<^verbatim>\<open>None\<close> and the empty string are falsy.\<close>

fun truthy :: "token option \<Rightarrow> bool" where
  "truthy None = False"
| "truthy (Some (Raw s)) = (s \<noteq> [])"
| "truthy (Some (Jws alg key p)) = True"

subsection \<open>Tables of models.py\<close>

record user =
  u_id :: int
  u_username :: string
  u_email :: "string option"
  u_role :: "string option"
  u_permissions :: "string list"

record token_rec =
  t_user_id :: int
  t_jti :: string
  t_token_type :: string
  t_expires_at :: int
  t_revoked :: bool

text \<open>
  The shared state: the two tables and the module-level sets \<^verbatim>\<open>_revoked_jtis\<close> and
  \<^verbatim>\<open>_valid_refresh_jtis\<close>.  Only values of \<^verbatim>\<open>str(uuid4())\<close> are ever added to the sets,
  so they are sets of strings.
\<close>

record state =
  users :: "user list"
  tokens :: "token_rec list"
  revoked_jtis :: "string set"
  valid_refresh_jtis :: "string set"

subsection \<open>Configuration\<close>

text \<open>
  The module constants read from the environment and from the key files.  A key is
  named by the number of its key pair: a signature made with \<open>PRIVATE_KEY\<close> verifies
  under \<open>PUBLIC_KEY\<close> iff both belong to the same pair.
\<close>

record config =
  PRIVATE_KEY :: nat
  PUBLIC_KEY :: nat
  ISSUER :: string
  AUDIENCE :: string
  ACCESS_TOKEN_EXP_MIN :: int
  REFRESH_TOKEN_EXP_DAYS :: int

definition ALGORITHM :: string where
  "ALGORITHM = ''RS256''"

subsection \<open>Errors, requests, responses\<close>

datatype error =
    HTTPException nat string
  | TypeError string
  | IntegrityError string

text \<open>
  The cookies of a request, and the \<^verbatim>\<open>Authorization\<close> header as
  \<^verbatim>\<open>headers.get("Authorization", "").removeprefix("Bearer ").strip()\<close> reads it
  (\<open>Raw []\<close> when the header is absent).
\<close>

record request =
  cookie_access_token :: "token option"
  cookie_refresh_token :: "token option"
  authorization_bearer :: token

text \<open>
  \<open>RedirectResponse url status deleted_cookies\<close>; \<open>JSONResponse message access refresh\<close>
  is the body of \<^verbatim>\<open>/token/refresh\<close>, which also sets both tokens as cookies.
\<close>

datatype response =
    RedirectResponse string nat "string list"
  | JSONResponse string token token

text \<open>The dictionary the two issuing functions return.\<close>

record issued =
  i_token :: token
  i_jti :: string
  i_exp :: int

text \<open>
  The \<^verbatim>\<open>db: Session\<close> argument.  It is keyword-only and has no default, so a call that
  leaves it out raises \<^verbatim>\<open>TypeError\<close> before the body runs: \<open>None\<close> stands for such a call.
\<close>

datatype session = Session

section \<open>The JWT library\<close>

datatype jwt_error = ExpiredSignatureError | JWTError string

text \<open>
  Modelled from the spec: \<^verbatim>\<open>jwt.encode\<close> and \<^verbatim>\<open>jwt.decode\<close> of the library
  \<^verbatim>\<open>jose\<close>, which the repository imports and does not contain.  Spec 6: a token is a
  signed structure of header and payload.  Spec 4.3, steps 2 to 4: the signature under
  the public key and the algorithm are checked first, then the expiry, then the
  audience when one is asked for; the token's payload is returned when all pass.
\<close>

definition jwt_encode :: "payload \<Rightarrow> nat \<Rightarrow> string \<Rightarrow> token" where
  "jwt_encode p key alg = Jws alg key p"

fun jwt_expired :: "claim option \<Rightarrow> int \<Rightarrow> bool" where
  "jwt_expired (Some (CInt e)) now = (e < now)"
| "jwt_expired _ now = False"

fun jwt_decode :: "token \<Rightarrow> nat \<Rightarrow> string list \<Rightarrow> string option \<Rightarrow> int \<Rightarrow> jwt_error + payload" where
  "jwt_decode (Raw s) key algs audience now = Inl (JWTError ''Not enough segments'')"
| "jwt_decode (Jws alg k p) key algs audience now =
     (if alg \<notin> set algs then Inl (JWTError ''The specified alg value is not allowed'')
      else if k \<noteq> key then Inl (JWTError ''Signature verification failed.'')
      else if jwt_expired (p ''exp'') now then Inl ExpiredSignatureError
      else if audience \<noteq> None \<and> p ''aud'' \<noteq> Some (CStr (the audience))
        then Inl (JWTError ''Invalid audience'')
      else Inr p)"

section \<open>Utility functions\<close>

text \<open>\<^verbatim>\<open>str(n)\<close> for an integer, as the f-string \<^verbatim>\<open>f"user_{user.id}"\<close> formats it.\<close>

fun digits :: "nat \<Rightarrow> string" where
  "digits n =
     (if n < 10 then [''0123456789'' ! n]
      else digits (n div 10) @ [''0123456789'' ! (n mod 10)])"

declare digits.simps [simp del]

definition str_int :: "int \<Rightarrow> string" where
  "str_int i = (if i < 0 then CHR ''-'' # digits (nat (- i)) else digits (nat i))"

text \<open>\<^verbatim>\<open>x or d\<close> for an optional integer: \<^verbatim>\<open>None\<close> and \<^verbatim>\<open>0\<close> are falsy.\<close>

fun int_or :: "int option \<Rightarrow> int \<Rightarrow> int" where
  "int_or None d = d"
| "int_or (Some n) d = (if n = 0 then d else n)"

text \<open>\<^verbatim>\<open>xs or d\<close> for a list.\<close>

fun list_or :: "'a list \<Rightarrow> 'a list \<Rightarrow> 'a list" where
  "list_or [] d = d"
| "list_or xs d = xs"

fun opt_claim :: "string option \<Rightarrow> claim" where
  "opt_claim None = CNone"
| "opt_claim (Some s) = CStr s"

text \<open>
  \<^verbatim>\<open>db.add(token_rec); db.commit()\<close>: the column \<^verbatim>\<open>Token.jti\<close> is declared unique, so the
  commit of a second row with the same jti fails and the row is not stored.
\<close>

definition db_add_token :: "token_rec \<Rightarrow> state \<Rightarrow> error + state" where
  "db_add_token r s =
     (if t_jti r \<in> t_jti ` set (tokens s) then Inl (IntegrityError ''tokens.jti'')
      else Inr (s\<lparr>tokens := tokens s @ [r]\<rparr>))"

text \<open>
  \<^verbatim>\<open>db.query(Token).filter(Token.jti == jti).first()\<close>.  A jti that is not a string
  (\<^verbatim>\<open>None\<close> when the payload has none) matches no row.
\<close>

fun find_token :: "claim option \<Rightarrow> state \<Rightarrow> token_rec option" where
  "find_token (Some (CStr j)) s = find (\<lambda>r. t_jti r = j) (tokens s)"
| "find_token _ s = None"

text \<open>
  \<^verbatim>\<open>db_token.revoked = True; db.commit()\<close> on the row a query returned with
  \<^verbatim>\<open>.first()\<close>: the first row with that jti is updated in place.
\<close>

fun set_revoked :: "string \<Rightarrow> token_rec list \<Rightarrow> token_rec list" where
  "set_revoked j [] = []"
| "set_revoked j (r # rs) =
     (if t_jti r = j then r\<lparr>t_revoked := True\<rparr> # rs else r # set_revoked j rs)"

text \<open>
  \<^verbatim>\<open>db.query(User).filter(User.id == user_id).first()\<close>; a \<^verbatim>\<open>user_id\<close> that is not an
  integer matches no row.
\<close>

fun find_user :: "claim option \<Rightarrow> state \<Rightarrow> user option" where
  "find_user (Some (CInt i)) s = find (\<lambda>u. u_id u = i) (users s)"
| "find_user _ s = None"

section \<open>JWT creation\<close>

text \<open>
  \<open>now\<close> is the clock at the call (\<^verbatim>\<open>_now_ts()\<close> and \<^verbatim>\<open>datetime.utcnow()\<close>, in whole
  seconds) and \<open>uuid\<close> the value \<^verbatim>\<open>str(uuid4())\<close> returns.  The library's encoder turns
  the \<^verbatim>\<open>datetime\<close> under \<^verbatim>\<open>"exp"\<close> into its integer timestamp.  \<^verbatim>\<open>User\<close> has no
  attribute \<^verbatim>\<open>name\<close>, so \<^verbatim>\<open>getattr(user, "name", user.username)\<close> is the username.
\<close>

definition create_access_token_for_user ::
  "config \<Rightarrow> int \<Rightarrow> string \<Rightarrow> user \<Rightarrow> session option \<Rightarrow> payload option \<Rightarrow> int option \<Rightarrow>
   state \<Rightarrow> (error + issued) \<times> state" where
  "create_access_token_for_user cfg now uuid usr db extra expires_minutes s =
     (case db of
        None \<Rightarrow> (Inl (TypeError ''missing 1 required keyword-only argument: db''), s)
      | Some _ \<Rightarrow>
         (let iat = now;
              expires = now + 60 * int_or expires_minutes (ACCESS_TOKEN_EXP_MIN cfg);
              jti = uuid;
              payload = [''iss'' \<mapsto> CStr (ISSUER cfg),
                         ''sub'' \<mapsto> CStr (''user_'' @ str_int (u_id usr)),
                         ''aud'' \<mapsto> CStr (AUDIENCE cfg),
                         ''iat'' \<mapsto> CInt iat,
                         ''nbf'' \<mapsto> CInt iat,
                         ''exp'' \<mapsto> CInt expires,
                         ''jti'' \<mapsto> CStr jti,
                         ''type'' \<mapsto> CStr ''access'',
                         ''user_id'' \<mapsto> CInt (u_id usr),
                         ''email'' \<mapsto> opt_claim (u_email usr),
                         ''role'' \<mapsto> opt_claim (u_role usr),
                         ''name'' \<mapsto> CStr (u_username usr),
                         ''permissions'' \<mapsto> CStrs (list_or (u_permissions usr) [''read_post''])];
              payload' = (case extra of None \<Rightarrow> payload | Some e \<Rightarrow> payload ++ e);
              token = jwt_encode payload' (PRIVATE_KEY cfg) ALGORITHM;
              token_rec = \<lparr>t_user_id = u_id usr, t_jti = jti, t_token_type = ''access'',
                           t_expires_at = expires, t_revoked = False\<rparr>
          in case db_add_token token_rec s of
               Inl e \<Rightarrow> (Inl e, s)
             | Inr s' \<Rightarrow> (Inr \<lparr>i_token = token, i_jti = jti, i_exp = expires\<rparr>, s')))"

definition create_refresh_token_for_user ::
  "config \<Rightarrow> int \<Rightarrow> string \<Rightarrow> user \<Rightarrow> session option \<Rightarrow> int option \<Rightarrow>
   state \<Rightarrow> (error + issued) \<times> state" where
  "create_refresh_token_for_user cfg now uuid usr db expires_days s =
     (case db of
        None \<Rightarrow> (Inl (TypeError ''missing 1 required keyword-only argument: db''), s)
      | Some _ \<Rightarrow>
         (let iat = now;
              expires = now + 86400 * int_or expires_days (REFRESH_TOKEN_EXP_DAYS cfg);
              jti = uuid;
              payload = [''iss'' \<mapsto> CStr (ISSUER cfg),
                         ''sub'' \<mapsto> CStr (''user_'' @ str_int (u_id usr)),
                         ''aud'' \<mapsto> CStr (AUDIENCE cfg),
                         ''iat'' \<mapsto> CInt iat,
                         ''nbf'' \<mapsto> CInt iat,
                         ''exp'' \<mapsto> CInt expires,
                         ''jti'' \<mapsto> CStr jti,
                         ''type'' \<mapsto> CStr ''refresh'',
                         ''user_id'' \<mapsto> CInt (u_id usr)];
              token = jwt_encode payload (PRIVATE_KEY cfg) ALGORITHM;
              token_rec = \<lparr>t_user_id = u_id usr, t_jti = jti, t_token_type = ''refresh'',
                           t_expires_at = expires, t_revoked = False\<rparr>
          in case db_add_token token_rec s of
               Inl e \<Rightarrow> (Inl e, s)
             | Inr s' \<Rightarrow>
                 (Inr \<lparr>i_token = token, i_jti = jti, i_exp = expires\<rparr>,
                  s'\<lparr>valid_refresh_jtis := insert jti (valid_refresh_jtis s')\<rparr>)))"

section \<open>JWT verification\<close>

text \<open>
  \<^verbatim>\<open>jti in _revoked_jtis\<close>: a list is unhashable, so the membership test itself raises
  for it; \<^verbatim>\<open>None\<close> and integers are in no set of strings.
\<close>

definition verify_jwt_token_strict ::
  "config \<Rightarrow> int \<Rightarrow> token option \<Rightarrow> bool \<Rightarrow> bool \<Rightarrow> state \<Rightarrow> (error + payload) \<times> state" where
  "verify_jwt_token_strict cfg now token check_audience check_issuer s =
     (if \<not> truthy token then (Inl (HTTPException 401 ''Missing token''), s)
      else
        case jwt_decode (the token) (PUBLIC_KEY cfg) [ALGORITHM]
               (if check_audience then Some (AUDIENCE cfg) else None) now of
          Inl ExpiredSignatureError \<Rightarrow> (Inl (HTTPException 401 ''Token expired''), s)
        | Inl (JWTError e) \<Rightarrow> (Inl (HTTPException 401 (''Token invalid: '' @ e)), s)
        | Inr payload \<Rightarrow>
            if check_issuer \<and> payload ''iss'' \<noteq> Some (CStr (ISSUER cfg))
            then (Inl (HTTPException 401 ''Invalid token issuer''), s)
            else
              (case payload ''jti'' of
                 Some (CStrs xs) \<Rightarrow> (Inl (TypeError ''unhashable type: list''), s)
               | Some (CStr jti) \<Rightarrow>
                   if jti \<in> revoked_jtis s then (Inl (HTTPException 401 ''Token revoked''), s)
                   else (Inr payload, s)
               | _ \<Rightarrow> (Inr payload, s)))"

section \<open>Routes\<close>

subsection \<open>Refresh token endpoint\<close>

text \<open>
  \<^verbatim>\<open>POST /token/refresh\<close>.  \<open>uuid1\<close> and \<open>uuid2\<close> are the identifiers the two issuing
  calls would draw.  Both calls are written without \<^verbatim>\<open>db\<close>.
\<close>

definition refresh_token ::
  "config \<Rightarrow> int \<Rightarrow> string \<Rightarrow> string \<Rightarrow> request \<Rightarrow> state \<Rightarrow> (error + response) \<times> state" where
  "refresh_token cfg now uuid1 uuid2 request s =
     (let refresh_token =
            (if truthy (cookie_refresh_token request) then cookie_refresh_token request
             else Some (authorization_bearer request))
      in
      if \<not> truthy refresh_token then (Inl (HTTPException 401 ''Missing refresh token''), s)
      else
        case verify_jwt_token_strict cfg now refresh_token True True s of
          (Inl e, s1) \<Rightarrow> (Inl e, s1)
        | (Inr payload, s1) \<Rightarrow>
            if payload ''type'' \<noteq> Some (CStr ''refresh'')
            then (Inl (HTTPException 401 ''Not a refresh token''), s1)
            else
              (case payload ''jti'' of
                 Some (CStrs xs) \<Rightarrow> (Inl (TypeError ''unhashable type: list''), s1)
               | Some (CStr old_jti) \<Rightarrow>
                   if old_jti \<notin> valid_refresh_jtis s1
                   then (Inl (HTTPException 401 ''Refresh token invalid or revoked''), s1)
                   else
                     (let s2 = s1\<lparr>valid_refresh_jtis := valid_refresh_jtis s1 - {old_jti}\<rparr>;
                          s3 = s2\<lparr>revoked_jtis := insert old_jti (revoked_jtis s2)\<rparr>
                      in case find_user (payload ''user_id'') s3 of
                           None \<Rightarrow> (Inl (HTTPException 401 ''User not found''), s3)
                         | Some usr \<Rightarrow>
                            (case create_access_token_for_user cfg now uuid1 usr None None None s3 of
                               (Inl e, s4) \<Rightarrow> (Inl e, s4)
                             | (Inr new_access, s4) \<Rightarrow>
                                (case create_refresh_token_for_user cfg now uuid2 usr None None s4 of
                                   (Inl e, s5) \<Rightarrow> (Inl e, s5)
                                 | (Inr new_refresh, s5) \<Rightarrow>
                                     (Inr (JSONResponse ''Token refreshed''
                                             (i_token new_access) (i_token new_refresh)), s5))))
               | _ \<Rightarrow> (Inl (HTTPException 401 ''Refresh token invalid or revoked''), s1)))"

subsection \<open>Logout endpoint\<close>

text \<open>
  \<^verbatim>\<open>POST /logout\<close>.  The \<^verbatim>\<open>try\<close> block decodes both cookies before it touches a row, and
  \<^verbatim>\<open>except Exception: pass\<close> swallows whatever either decode raises (decoding an absent
  cookie raises as well).  Both rows are queried before either is updated.
\<close>

definition logout :: "config \<Rightarrow> int \<Rightarrow> request \<Rightarrow> state \<Rightarrow> response \<times> state" where
  "logout cfg now request s =
     (let refresh_token = cookie_refresh_token request;
          access_token = cookie_access_token request;
          resp = RedirectResponse ''/'' 302 [''access_token'', ''refresh_token''];
          s' =
            (if truthy refresh_token then
               (case jwt_decode (the refresh_token) (PUBLIC_KEY cfg) [ALGORITHM]
                       (Some (AUDIENCE cfg)) now of
                  Inl e \<Rightarrow> s
                | Inr ref_payload \<Rightarrow>
                   (case access_token of
                      None \<Rightarrow> s
                    | Some access \<Rightarrow>
                       (case jwt_decode access (PUBLIC_KEY cfg) [ALGORITHM]
                               (Some (AUDIENCE cfg)) now of
                          Inl e \<Rightarrow> s
                        | Inr access_payload \<Rightarrow>
                           (let ref_jti = ref_payload ''jti'';
                                access_jti = access_payload ''jti'';
                                db_token_ref = find_token ref_jti s;
                                db_token_access = find_token access_jti s;
                                s1 = (case db_token_ref of
                                        None \<Rightarrow> s
                                      | Some r \<Rightarrow> s\<lparr>tokens := set_revoked (t_jti r) (tokens s)\<rparr>);
                                s2 = (case db_token_access of
                                        None \<Rightarrow> s1
                                      | Some r \<Rightarrow> s1\<lparr>tokens := set_revoked (t_jti r) (tokens s1)\<rparr>)
                            in s2))))
             else s)
      in (resp, s'))"

subsection \<open>Admin: revoke a token\<close>

text \<open>\<^verbatim>\<open>POST /admin/revoke\<close> with the form field \<^verbatim>\<open>token_jti\<close>.\<close>

definition admin_revoke ::
  "config \<Rightarrow> int \<Rightarrow> string \<Rightarrow> request \<Rightarrow> state \<Rightarrow> (error + response) \<times> state" where
  "admin_revoke cfg now token_jti request s =
     (let cookie = cookie_access_token request in
      if \<not> truthy cookie then (Inl (HTTPException 401 ''Not authenticated''), s)
      else
        case verify_jwt_token_strict cfg now cookie True True s of
          (Inl e, s1) \<Rightarrow> (Inl e, s1)
        | (Inr payload, s1) \<Rightarrow>
            if payload ''role'' \<noteq> Some (CStr ''admin'')
            then (Inl (HTTPException 403 ''Admins only''), s1)
            else
              (case find_token (Some (CStr token_jti)) s1 of
                 None \<Rightarrow> (Inl (HTTPException 404 ''Token not found''), s1)
               | Some db_token \<Rightarrow>
                   (Inr (RedirectResponse ''/admin/tokens'' 302 []),
                    s1\<lparr>tokens := set_revoked (t_jti db_token) (tokens s1)\<rparr>)))"

section \<open>A running example\<close>

text \<open>
  The default configuration with a matching key pair, the user \<^verbatim>\<open>alice\<close> (id 1, no
  permissions of her own) and an administrator, and the state after \<^verbatim>\<open>alice\<close> has
  logged in at time 1000: \<^verbatim>\<open>login_user\<close> issues an access and then a refresh token.
\<close>

definition cfg0 :: config where
  "cfg0 = \<lparr>PRIVATE_KEY = 1, PUBLIC_KEY = 1, ISSUER = ''myblogapp.com'',
           AUDIENCE = ''myblogapp_users'', ACCESS_TOKEN_EXP_MIN = 15,
           REFRESH_TOKEN_EXP_DAYS = 30\<rparr>"

definition alice :: user where
  "alice = \<lparr>u_id = 1, u_username = ''alice'', u_email = None, u_role = Some ''user'',
            u_permissions = []\<rparr>"

definition root :: user where
  "root = \<lparr>u_id = 2, u_username = ''root'', u_email = Some ''root@myblogapp.com'',
           u_role = Some ''admin'', u_permissions = [''create_post'', ''edit_post'']\<rparr>"

definition state0 :: state where
  "state0 = \<lparr>users = [alice, root], tokens = [], revoked_jtis = {}, valid_refresh_jtis = {}\<rparr>"

definition access_A :: token where
  "access_A = i_token (projr (fst
     (create_access_token_for_user cfg0 1000 ''a1'' alice (Some Session) None None state0)))"

definition state1 :: state where
  "state1 = snd (create_access_token_for_user cfg0 1000 ''a1'' alice (Some Session) None None state0)"

definition refresh_R :: token where
  "refresh_R = i_token (projr (fst
     (create_refresh_token_for_user cfg0 1000 ''r1'' alice (Some Session) None state1)))"

definition state2 :: state where
  "state2 = snd (create_refresh_token_for_user cfg0 1000 ''r1'' alice (Some Session) None state1)"

text \<open>The requests that carry the refresh cookie alone, and both cookies.\<close>

definition req_R :: request where
  "req_R = \<lparr>cookie_access_token = None, cookie_refresh_token = Some refresh_R,
             authorization_bearer = Raw []\<rparr>"

definition req_AR :: request where
  "req_AR = \<lparr>cookie_access_token = Some access_A, cookie_refresh_token = Some refresh_R,
              authorization_bearer = Raw []\<rparr>"

text \<open>
  The administrator logs in as well (only the access token matters here), and sends
  requests that carry that access token as a cookie.
\<close>

definition access_Root :: token where
  "access_Root = i_token (projr (fst
     (create_access_token_for_user cfg0 1000 ''a9'' root (Some Session) None None state2)))"

definition state3 :: state where
  "state3 = snd (create_access_token_for_user cfg0 1000 ''a9'' root (Some Session) None None state2)"

definition req_admin :: request where
  "req_admin = \<lparr>cookie_access_token = Some access_Root, cookie_refresh_token = None,
                 authorization_bearer = Raw []\<rparr>"

section \<open>Facts about the operations\<close>

subsection \<open>Decoding and verification\<close>


lemma verify_keeps_state: "snd (verify_jwt_token_strict cfg now tok ca ci s) = s"
  by (simp add: verify_jwt_token_strict_def
      split: sum.split jwt_error.split option.split claim.split)

lemma verify_InrD:
  assumes "verify_jwt_token_strict cfg now tok ca ci s = (Inr p, s')"
  shows "truthy tok"
    and "jwt_decode (the tok) (PUBLIC_KEY cfg) [ALGORITHM]
           (if ca then Some (AUDIENCE cfg) else None) now = Inr p"
    and "s' = s"
    and "ci \<Longrightarrow> p ''iss'' = Some (CStr (ISSUER cfg))"
    and "p ''jti'' = Some (CStr j) \<Longrightarrow> j \<notin> revoked_jtis s"
  using assms
  by (auto simp: verify_jwt_token_strict_def
      split: if_splits sum.splits jwt_error.splits option.splits claim.splits)

lemma verify_revoked:
  assumes "truthy tok"
    and "jwt_decode (the tok) (PUBLIC_KEY cfg) [ALGORITHM]
           (if ca then Some (AUDIENCE cfg) else None) now = Inr p"
    and "ci \<Longrightarrow> p ''iss'' = Some (CStr (ISSUER cfg))"
    and "p ''jti'' = Some (CStr j)"
    and "j \<in> revoked_jtis s"
  shows "verify_jwt_token_strict cfg now tok ca ci s =
           (Inl (HTTPException 401 ''Token revoked''), s)"
  using assms by (auto simp: verify_jwt_token_strict_def)

lemma verify_accepts:
  assumes "truthy tok"
    and "jwt_decode (the tok) (PUBLIC_KEY cfg) [ALGORITHM]
           (if ca then Some (AUDIENCE cfg) else None) now = Inr p"
    and "ci \<Longrightarrow> p ''iss'' = Some (CStr (ISSUER cfg))"
    and "p ''jti'' = Some (CStr j)"
    and "j \<notin> revoked_jtis s"
  shows "verify_jwt_token_strict cfg now tok ca ci s = (Inr p, s)"
  using assms by (auto simp: verify_jwt_token_strict_def)

subsection \<open>What a rotation does to a token that passes its checks\<close>

text \<open>
  Once the presented token has passed verification, is of type refresh and its jti is
  in \<^verbatim>\<open>_valid_refresh_jtis\<close>, the endpoint moves the jti from the valid set to the
  revoked set and then raises: \<^verbatim>\<open>User not found\<close> when the user row is gone, and
  otherwise the \<^verbatim>\<open>TypeError\<close> of the first issuing call, which is written without its
  required argument \<^verbatim>\<open>db\<close>.
\<close>

lemma refresh_token_retires:
  assumes tok: "(if truthy (cookie_refresh_token req) then cookie_refresh_token req
                 else Some (authorization_bearer req)) = Some tok"
    and ver: "verify_jwt_token_strict cfg now (Some tok) True True s = (Inr p, s)"
    and ty: "p ''type'' = Some (CStr ''refresh'')"
    and jti: "p ''jti'' = Some (CStr j)"
    and val: "j \<in> valid_refresh_jtis s"
  shows "refresh_token cfg now uuid1 uuid2 req s =
          (if find_user (p ''user_id'') s = None then Inl (HTTPException 401 ''User not found'')
           else Inl (TypeError ''missing 1 required keyword-only argument: db''),
           s\<lparr>valid_refresh_jtis := valid_refresh_jtis s - {j},
              revoked_jtis := insert j (revoked_jtis s)\<rparr>)"
proof -
  have t: "truthy (Some tok)" using verify_InrD(1)[OF ver] .
  have fu: "find_user x (s\<lparr>valid_refresh_jtis := V, revoked_jtis := R\<rparr>) = find_user x s"
    for x V R
    by (cases "(x, s)" rule: find_user.cases) simp_all
  show ?thesis
    using tok t ver ty jti val
    by (simp add: refresh_token_def Let_def fu create_access_token_for_user_def
        split: option.split)
qed

text \<open>No call of the endpoint returns the JSON response with a new pair.\<close>

lemma refresh_token_never_Inr: "fst (refresh_token cfg now uuid1 uuid2 req s) \<noteq> Inr resp"
  by (auto simp: refresh_token_def Let_def create_access_token_for_user_def
      split: prod.splits sum.splits option.splits claim.splits if_splits)

subsection \<open>The running example, evaluated\<close>

lemmas scenario_defs = create_access_token_for_user_def create_refresh_token_for_user_def
  db_add_token_def jwt_encode_def cfg0_def alice_def root_def state0_def state1_def state2_def
  access_A_def refresh_R_def req_R_def req_AR_def ALGORITHM_def Let_def str_int_def digits.simps

lemma state2_eval:
  "state2 = \<lparr>users = [alice, root],
      tokens = [\<lparr>t_user_id = 1, t_jti = ''a1'', t_token_type = ''access'',
                  t_expires_at = 1900, t_revoked = False\<rparr>,
                \<lparr>t_user_id = 1, t_jti = ''r1'', t_token_type = ''refresh'',
                  t_expires_at = 2593000, t_revoked = False\<rparr>],
      revoked_jtis = {}, valid_refresh_jtis = {''r1''}\<rparr>"
  by (simp add: scenario_defs)

lemma refresh_R_claims:
  "jws_payload refresh_R ''type'' = Some (CStr ''refresh'')"
  "jws_payload refresh_R ''jti'' = Some (CStr ''r1'')"
  "jws_payload refresh_R ''user_id'' = Some (CInt 1)"
  "jws_payload refresh_R ''sub'' = Some (CStr ''user_1'')"
  by (simp_all add: scenario_defs)

lemma presented_R:
  "(if truthy (cookie_refresh_token req_R) then cookie_refresh_token req_R
    else Some (authorization_bearer req_R)) = Some refresh_R"
  by (simp add: scenario_defs)

lemma verify_R_eval:
  "verify_jwt_token_strict cfg0 1001 (Some refresh_R) True True state2 =
     (Inr (jws_payload refresh_R), state2)"
  by (simp add: verify_jwt_token_strict_def scenario_defs)

lemma rotate_R_eval:
  "refresh_token cfg0 1001 ''a2'' ''r2'' req_R state2 =
     (Inl (TypeError ''missing 1 required keyword-only argument: db''),
      state2\<lparr>valid_refresh_jtis := {}, revoked_jtis := {''r1''}\<rparr>)"
  by (simp add: refresh_token_def verify_jwt_token_strict_def scenario_defs)

section \<open>Rotation\<close>

text \<open>
  C1.  The claim: a valid, unexpired, never rotated refresh token presented to the
  rotation is exchanged for a new access and refresh token of the same user.  The
  code does not do so.  In the running example the refresh token of \<^verbatim>\<open>alice\<close> passes
  verification one second after her login, is of type refresh, its jti is in the valid
  set and her user row exists; the endpoint retires the token and then raises
  \<^verbatim>\<open>TypeError\<close>, because \<^verbatim>\<open>create_access_token_for_user(user=user)\<close> leaves out the
  required \<^verbatim>\<open>db\<close> that \<^verbatim>\<open>login_user\<close> passes.  No pair is returned.
\<close>

theorem rotate_valid_token_raises_TypeError:
  "verify_jwt_token_strict cfg0 1001 (cookie_refresh_token req_R) True True state2 =
     (Inr (jws_payload refresh_R), state2) \<and>
   jws_payload refresh_R ''type'' = Some (CStr ''refresh'') \<and>
   jws_payload refresh_R ''jti'' = Some (CStr ''r1'') \<and>
   ''r1'' \<in> valid_refresh_jtis state2 \<and>
   find_user (jws_payload refresh_R ''user_id'') state2 = Some alice \<and>
   refresh_token cfg0 1001 ''a2'' ''r2'' req_R state2 =
     (Inl (TypeError ''missing 1 required keyword-only argument: db''),
      state2\<lparr>valid_refresh_jtis := {}, revoked_jtis := {''r1''}\<rparr>)"
  using rotate_R_eval verify_R_eval refresh_R_claims
  by (simp add: req_R_def state2_eval alice_def root_def)




text \<open>
  C3, as the claim states it, fails.  After the rotation of the running example the
  jti \<^verbatim>\<open>r1\<close> is in the revoked set, and its row of the table \<^verbatim>\<open>tokens\<close> still has
  \<^verbatim>\<open>revoked = False\<close>: the endpoint writes no row.
\<close>

theorem rotate_store_counterexample:
  "''r1'' \<in> revoked_jtis (snd (refresh_token cfg0 1001 ''a2'' ''r2'' req_R state2)) \<and>
   find_token (Some (CStr ''r1'')) (snd (refresh_token cfg0 1001 ''a2'' ''r2'' req_R state2)) =
     Some \<lparr>t_user_id = 1, t_jti = ''r1'', t_token_type = ''refresh'', t_expires_at = 2593000,
            t_revoked = False\<rparr>"
  by (simp add: rotate_R_eval) (simp add: state2_eval)

text \<open>
  C3, amended.  When a rotation retires the refresh token it was given (the token has
  passed the checks of steps 1 and 2), the jti is removed from the valid set and added
  to the revoked set, and this is done before any token is issued: it holds in the
  state the call leaves whatever happens afterwards, in particular when the user row
  is not found, where the call ends with \<^verbatim>\<open>User not found\<close> and has stored no token.
\<close>

theorem rotate_retires_before_issuing:
  assumes "(if truthy (cookie_refresh_token req) then cookie_refresh_token req
            else Some (authorization_bearer req)) = Some tok"
    and "verify_jwt_token_strict cfg now (Some tok) True True s = (Inr p, s)"
    and "p ''type'' = Some (CStr ''refresh'')"
    and "p ''jti'' = Some (CStr j)"
    and "j \<in> valid_refresh_jtis s"
  shows "j \<notin> valid_refresh_jtis (snd (refresh_token cfg now uuid1 uuid2 req s)) \<and>
         j \<in> revoked_jtis (snd (refresh_token cfg now uuid1 uuid2 req s)) \<and>
         (find_user (p ''user_id'') s = None \<longrightarrow>
            fst (refresh_token cfg now uuid1 uuid2 req s) =
              Inl (HTTPException 401 ''User not found'') \<and>
            tokens (snd (refresh_token cfg now uuid1 uuid2 req s)) = tokens s)"
  by (simp add: refresh_token_retires[OF assms])

text \<open>
  The running example after the row of \<^verbatim>\<open>alice\<close> has been deleted: her refresh token
  still verifies, the rotation retires it and ends with \<^verbatim>\<open>User not found\<close>.
\<close>

theorem rotate_retires_before_issuing_witness:
  "''r1'' \<in> valid_refresh_jtis (state2\<lparr>users := [root]\<rparr>) \<and>
   find_user (jws_payload refresh_R ''user_id'') (state2\<lparr>users := [root]\<rparr>) = None \<and>
   ''r1'' \<notin> valid_refresh_jtis
      (snd (refresh_token cfg0 1001 ''a2'' ''r2'' req_R (state2\<lparr>users := [root]\<rparr>))) \<and>
   ''r1'' \<in> revoked_jtis
      (snd (refresh_token cfg0 1001 ''a2'' ''r2'' req_R (state2\<lparr>users := [root]\<rparr>))) \<and>
   fst (refresh_token cfg0 1001 ''a2'' ''r2'' req_R (state2\<lparr>users := [root]\<rparr>)) =
     Inl (HTTPException 401 ''User not found'') \<and>
   tokens (snd (refresh_token cfg0 1001 ''a2'' ''r2'' req_R (state2\<lparr>users := [root]\<rparr>))) =
     tokens state2"
proof -
  have h2: "verify_jwt_token_strict cfg0 1001 (Some refresh_R) True True
              (state2\<lparr>users := [root]\<rparr>) =
            (Inr (jws_payload refresh_R), state2\<lparr>users := [root]\<rparr>)"
    by (simp add: verify_jwt_token_strict_def scenario_defs)
  have h5: "''r1'' \<in> valid_refresh_jtis (state2\<lparr>users := [root]\<rparr>)"
    by (simp add: state2_eval)
  have nf: "find_user (jws_payload refresh_R ''user_id'') (state2\<lparr>users := [root]\<rparr>) = None"
    by (simp add: refresh_R_claims root_def)
  show ?thesis
    using rotate_retires_before_issuing
      [OF presented_R h2 refresh_R_claims(1,2) h5, of "''a2''" "''r2''"] h5 nf
    by simp
qed

section \<open>Logout and revocation\<close>

subsection \<open>Logout writes rows only\<close>

lemma logout_keeps_index:
  "revoked_jtis (snd (logout cfg now req s)) = revoked_jtis s \<and>
   valid_refresh_jtis (snd (logout cfg now req s)) = valid_refresh_jtis s \<and>
   users (snd (logout cfg now req s)) = users s"
  by (simp add: logout_def Let_def split: sum.split option.split)

lemma logout_redirects:
  "fst (logout cfg now req s) = RedirectResponse ''/'' 302 [''access_token'', ''refresh_token'']"
  by (simp add: logout_def Let_def)

lemma verify_reads_index_only:
  assumes "revoked_jtis s' = revoked_jtis s"
  shows "fst (verify_jwt_token_strict cfg now tok ca ci s') =
         fst (verify_jwt_token_strict cfg now tok ca ci s)"
  using assms
  by (simp add: verify_jwt_token_strict_def
      split: sum.split jwt_error.split option.split claim.split)

text \<open>Whatever a logout did, every token verifies afterwards exactly as it did before.\<close>

lemma verify_after_logout:
  "fst (verify_jwt_token_strict cfg now' tok ca ci (snd (logout cfg now req s))) =
   fst (verify_jwt_token_strict cfg now' tok ca ci s)"
  by (rule verify_reads_index_only) (simp add: logout_keeps_index)

lemma logout_AR_eval:
  "logout cfg0 1001 req_AR state2 =
     (RedirectResponse ''/'' 302 [''access_token'', ''refresh_token''],
      state2\<lparr>tokens :=
        [\<lparr>t_user_id = 1, t_jti = ''a1'', t_token_type = ''access'',
            t_expires_at = 1900, t_revoked = True\<rparr>,
         \<lparr>t_user_id = 1, t_jti = ''r1'', t_token_type = ''refresh'',
            t_expires_at = 2593000, t_revoked = True\<rparr>]\<rparr>)"
  by (simp add: logout_def scenario_defs)

text \<open>
  The half of C4 that the code keeps: a jti retired by a rotation is rejected with
  \<^verbatim>\<open>Token revoked\<close> by every later verification of a token that carries it and passes
  the earlier checks.
\<close>

lemma verify_after_rotation:
  assumes "(if truthy (cookie_refresh_token req) then cookie_refresh_token req
            else Some (authorization_bearer req)) = Some tok"
    and "verify_jwt_token_strict cfg now (Some tok) True True s = (Inr p, s)"
    and "p ''type'' = Some (CStr ''refresh'')"
    and "p ''jti'' = Some (CStr j)"
    and "j \<in> valid_refresh_jtis s"
    and "revoked_jtis (snd (refresh_token cfg now uuid1 uuid2 req s)) \<subseteq> revoked_jtis s2"
    and "truthy tok2"
    and "jwt_decode (the tok2) (PUBLIC_KEY cfg) [ALGORITHM]
           (if ca then Some (AUDIENCE cfg) else None) now2 = Inr p2"
    and "ci \<Longrightarrow> p2 ''iss'' = Some (CStr (ISSUER cfg))"
    and "p2 ''jti'' = Some (CStr j)"
  shows "verify_jwt_token_strict cfg now2 tok2 ca ci s2 =
           (Inl (HTTPException 401 ''Token revoked''), s2)"
proof -
  have "j \<in> revoked_jtis (snd (refresh_token cfg now uuid1 uuid2 req s))"
    by (simp add: refresh_token_retires[OF assms(1-5), of uuid1 uuid2])
  with assms(6) have "j \<in> revoked_jtis s2" by blast
  with assms(7-10) show ?thesis
    by (intro verify_revoked[where p = p2 and j = j]) simp_all
qed

text \<open>
  C4.  The claim: after a jti has been revoked on the rotation or the logout path,
  every later verification of a token that carries it fails with \<^verbatim>\<open>Token revoked\<close>.
  On the logout path the code does not do so.  In the running example \<^verbatim>\<open>alice\<close> logs
  out with both cookies: both rows are marked revoked, and one second later her access
  token (jti \<^verbatim>\<open>a1\<close>) and her refresh token (jti \<^verbatim>\<open>r1\<close>) both still pass verification,
  because the logout never adds a jti to \<^verbatim>\<open>_revoked_jtis\<close>, the only place the
  verification looks at.
\<close>

theorem logout_leaves_tokens_verifiable:
  "map t_revoked (tokens (snd (logout cfg0 1001 req_AR state2))) = [True, True] \<and>
   verify_jwt_token_strict cfg0 1002 (Some access_A) True True
       (snd (logout cfg0 1001 req_AR state2)) =
     (Inr (jws_payload access_A), snd (logout cfg0 1001 req_AR state2)) \<and>
   verify_jwt_token_strict cfg0 1002 (Some refresh_R) True True
       (snd (logout cfg0 1001 req_AR state2)) =
     (Inr (jws_payload refresh_R), snd (logout cfg0 1001 req_AR state2)) \<and>
   jws_payload access_A ''jti'' = Some (CStr ''a1'') \<and>
   jws_payload refresh_R ''jti'' = Some (CStr ''r1'')"
  by (simp add: logout_AR_eval) (simp add: verify_jwt_token_strict_def scenario_defs)

text \<open>
  C10.  A logout whose refresh cookie is present, and whose access cookie is absent or
  does not decode, changes nothing: the decoding error leaves the \<^verbatim>\<open>try\<close> block before
  any row is touched, so no row is marked revoked, and the endpoint answers with the
  redirect to \<^verbatim>\<open>/\<close> that deletes both cookies.  (The endpoint returns a response on
  every path, see \<open>logout_redirects\<close>: it has no error result at all.)
\<close>

theorem logout_without_access_token:
  assumes "truthy (cookie_refresh_token req)"
    and "cookie_access_token req = None \<or>
         isl (jwt_decode (the (cookie_access_token req)) (PUBLIC_KEY cfg) [ALGORITHM]
                (Some (AUDIENCE cfg)) now)"
  shows "logout cfg now req s =
           (RedirectResponse ''/'' 302 [''access_token'', ''refresh_token''], s)"
  using assms
  by (auto simp: logout_def Let_def isl_def split: sum.splits option.splits)

text \<open>
  The running example, with the refresh cookie of \<^verbatim>\<open>alice\<close> and no access cookie, and
  with an access cookie that is not a token.
\<close>

theorem logout_without_access_token_witness:
  "truthy (cookie_refresh_token req_R) \<and> cookie_access_token req_R = None \<and>
   logout cfg0 1001 req_R state2 =
     (RedirectResponse ''/'' 302 [''access_token'', ''refresh_token''], state2) \<and>
   isl (jwt_decode (Raw ''garbage'') (PUBLIC_KEY cfg0) [ALGORITHM] (Some (AUDIENCE cfg0)) 1001) \<and>
   logout cfg0 1001 (req_R\<lparr>cookie_access_token := Some (Raw ''garbage'')\<rparr>) state2 =
     (RedirectResponse ''/'' 302 [''access_token'', ''refresh_token''], state2)"
proof -
  have t: "truthy (cookie_refresh_token req_R)" by (simp add: scenario_defs)
  have n: "cookie_access_token req_R = None" by (simp add: req_R_def)
  have t': "truthy (cookie_refresh_token (req_R\<lparr>cookie_access_token := Some (Raw ''garbage'')\<rparr>))"
    using t by simp
  have g: "isl (jwt_decode (Raw ''garbage'') (PUBLIC_KEY cfg0) [ALGORITHM]
                  (Some (AUDIENCE cfg0)) 1001)"
    by simp
  have g': "cookie_access_token (req_R\<lparr>cookie_access_token := Some (Raw ''garbage'')\<rparr>) = None \<or>
     isl (jwt_decode (the (cookie_access_token (req_R\<lparr>cookie_access_token := Some (Raw ''garbage'')\<rparr>)))
            (PUBLIC_KEY cfg0) [ALGORITHM] (Some (AUDIENCE cfg0)) 1001)"
    by simp
  show ?thesis
    using logout_without_access_token[OF t disjI1[OF n], of cfg0 1001 state2]
      logout_without_access_token[OF t' g', of state2] t n g
    by simp
qed

subsection \<open>The administrator's revocation\<close>

lemma set_revoked_idem:
  assumes "find (\<lambda>r. t_jti r = j) ts = Some r" and "t_revoked r"
  shows "set_revoked j ts = ts"
  using assms by (induction ts) (auto split: if_splits)

lemma find_Some_jti: "find (\<lambda>r. t_jti r = j) ts = Some r \<Longrightarrow> t_jti r = j"
  by (induction ts) (auto split: if_splits)

lemma find_set_revoked:
  assumes "find (\<lambda>r. t_jti r = j) ts = Some r"
  shows "find (\<lambda>r. t_jti r = j) (set_revoked j ts) = Some (r\<lparr>t_revoked := True\<rparr>)"
  using assms by (induction ts) (auto split: if_splits)

text \<open>A revocation that succeeds leaves the row of that jti with \<^verbatim>\<open>revoked = True\<close>.\<close>

lemma admin_revoke_marks:
  assumes "admin_revoke cfg now j req s = (Inr resp, s')"
  shows "map_option t_revoked (find_token (Some (CStr j)) s') = Some True"
proof -
  obtain r where f: "find (\<lambda>r. t_jti r = j) (tokens s) = Some r"
    and s': "s' = s\<lparr>tokens := set_revoked (t_jti r) (tokens s)\<rparr>"
    using assms verify_keeps_state[of cfg now "cookie_access_token req" True True s]
    by (auto simp: admin_revoke_def Let_def split: if_splits prod.splits sum.splits option.splits)
  show ?thesis
    using find_set_revoked[OF f] find_Some_jti[OF f] by (simp add: s')
qed

text \<open>
  C8.  Revoking a jti whose row is already revoked does not raise, and the row is
  still revoked afterwards; the state is left as it was.  The caller is an
  administrator: the access cookie verifies and carries the role \<^verbatim>\<open>admin\<close>.
\<close>

theorem admin_revoke_idempotent:
  assumes "verify_jwt_token_strict cfg now (cookie_access_token req) True True s = (Inr p, s)"
    and "p ''role'' = Some (CStr ''admin'')"
    and "find_token (Some (CStr j)) s = Some r"
    and "t_revoked r"
  shows "admin_revoke cfg now j req s = (Inr (RedirectResponse ''/admin/tokens'' 302 []), s) \<and>
         map_option t_revoked (find_token (Some (CStr j)) (snd (admin_revoke cfg now j req s))) =
           Some True"
proof -
  have t: "truthy (cookie_access_token req)" using verify_InrD(1)[OF assms(1)] .
  have f: "find (\<lambda>r. t_jti r = j) (tokens s) = Some r" using assms(3) by simp
  have same: "set_revoked (t_jti r) (tokens s) = tokens s"
    using set_revoked_idem[OF f assms(4)] find_Some_jti[OF f] by simp
  have "admin_revoke cfg now j req s = (Inr (RedirectResponse ''/admin/tokens'' 302 []), s)"
    using t assms(1,2) f by (simp add: admin_revoke_def same)
  then show ?thesis using assms(3,4) by simp
qed

lemma state3_eval:
  "state3 = \<lparr>users = [alice, root],
      tokens = [\<lparr>t_user_id = 1, t_jti = ''a1'', t_token_type = ''access'',
                  t_expires_at = 1900, t_revoked = False\<rparr>,
                \<lparr>t_user_id = 1, t_jti = ''r1'', t_token_type = ''refresh'',
                  t_expires_at = 2593000, t_revoked = False\<rparr>,
                \<lparr>t_user_id = 2, t_jti = ''a9'', t_token_type = ''access'',
                  t_expires_at = 1900, t_revoked = False\<rparr>],
      revoked_jtis = {}, valid_refresh_jtis = {''r1''}\<rparr>"
  by (simp add: state3_def state2_eval create_access_token_for_user_def db_add_token_def
      Let_def cfg0_def root_def)

lemma access_Root_eval:
  "access_Root = Jws ''RS256'' 1 (jws_payload access_Root)"
  "jws_payload access_Root ''exp'' = Some (CInt 1900)"
  "jws_payload access_Root ''aud'' = Some (CStr ''myblogapp_users'')"
  "jws_payload access_Root ''iss'' = Some (CStr ''myblogapp.com'')"
  "jws_payload access_Root ''jti'' = Some (CStr ''a9'')"
  "jws_payload access_Root ''role'' = Some (CStr ''admin'')"
  by (simp_all add: access_Root_def state2_eval create_access_token_for_user_def db_add_token_def
      jwt_encode_def ALGORITHM_def Let_def cfg0_def root_def)

lemma decode_Root:
  assumes "now \<le> 1900"
  shows "jwt_decode access_Root (PUBLIC_KEY cfg0) [ALGORITHM] (Some (AUDIENCE cfg0)) now =
           Inr (jws_payload access_Root)"
  using assms
  by (subst access_Root_eval(1)) (simp add: access_Root_eval(2-) cfg0_def ALGORITHM_def)

lemma verify_Root:
  assumes "now \<le> 1900" and "''a9'' \<notin> revoked_jtis s"
  shows "verify_jwt_token_strict cfg0 now (cookie_access_token req_admin) True True s =
           (Inr (jws_payload access_Root), s)"
proof -
  have c: "cookie_access_token req_admin = Some access_Root" by (simp add: req_admin_def)
  have t: "truthy (Some access_Root)" by (subst access_Root_eval(1)) simp
  show ?thesis
    unfolding c
    using t decode_Root[OF assms(1)] access_Root_eval(4,5) assms(2)
    by (intro verify_accepts[where j = "''a9''"]) (simp_all add: cfg0_def)
qed

lemma admin_first_eval:
  "admin_revoke cfg0 1001 ''r1'' req_admin state3 =
     (Inr (RedirectResponse ''/admin/tokens'' 302 []),
      state3\<lparr>tokens :=
        [\<lparr>t_user_id = 1, t_jti = ''a1'', t_token_type = ''access'',
            t_expires_at = 1900, t_revoked = False\<rparr>,
         \<lparr>t_user_id = 1, t_jti = ''r1'', t_token_type = ''refresh'',
            t_expires_at = 2593000, t_revoked = True\<rparr>,
         \<lparr>t_user_id = 2, t_jti = ''a9'', t_token_type = ''access'',
            t_expires_at = 1900, t_revoked = False\<rparr>]\<rparr>)"
proof -
  have v: "verify_jwt_token_strict cfg0 1001 (cookie_access_token req_admin) True True state3 =
             (Inr (jws_payload access_Root), state3)"
    by (rule verify_Root) (simp_all add: state3_eval)
  have t: "truthy (cookie_access_token req_admin)"
    using verify_InrD(1)[OF v] .
  show ?thesis
    using t by (simp add: admin_revoke_def v access_Root_eval(6)) (simp add: state3_eval)
qed

text \<open>
  The running example: the administrator revokes the refresh token of \<^verbatim>\<open>alice\<close> and,
  one second later, revokes it again.
\<close>

theorem admin_revoke_idempotent_witness:
  "admin_revoke cfg0 1002 ''r1'' req_admin (snd (admin_revoke cfg0 1001 ''r1'' req_admin state3)) =
     (Inr (RedirectResponse ''/admin/tokens'' 302 []),
      snd (admin_revoke cfg0 1001 ''r1'' req_admin state3)) \<and>
   map_option t_revoked (find_token (Some (CStr ''r1''))
      (snd (admin_revoke cfg0 1002 ''r1'' req_admin
              (snd (admin_revoke cfg0 1001 ''r1'' req_admin state3))))) = Some True"
proof -
  let ?s = "snd (admin_revoke cfg0 1001 ''r1'' req_admin state3)"
  have h1: "verify_jwt_token_strict cfg0 1002 (cookie_access_token req_admin) True True ?s =
              (Inr (jws_payload access_Root), ?s)"
    by (rule verify_Root) (simp_all add: admin_first_eval, simp add: state3_eval)
  have h3: "find_token (Some (CStr ''r1'')) ?s =
              Some \<lparr>t_user_id = 1, t_jti = ''r1'', t_token_type = ''refresh'',
                     t_expires_at = 2593000, t_revoked = True\<rparr>"
    by (simp add: admin_first_eval)
  have h4: "t_revoked \<lparr>t_user_id = 1, t_jti = ''r1'', t_token_type = ''refresh'',
                         t_expires_at = 2593000, t_revoked = True\<rparr>"
    by simp
  show ?thesis
    using admin_revoke_idempotent[OF h1 access_Root_eval(6) h3 h4] .
qed

section \<open>Verification\<close>

text \<open>
  C5.  The verification performs its checks in one fixed order: its result is that of
  the chain of tests below, which is the order of spec 4.3.  A missing token comes
  first; then what the decoder checks (algorithm and signature, then expiry, then the
  audience when it is asked for); then the issuer when it is asked for; the revoked
  set last.  Each test has a rejection of its own.  In particular a token that is
  both expired and revoked is reported as expired.
\<close>

theorem verify_check_order:
  "fst (verify_jwt_token_strict cfg now tok check_audience check_issuer s) =
     (if \<not> truthy tok then Inl (HTTPException 401 ''Missing token'')
      else case the tok of
        Raw r \<Rightarrow> Inl (HTTPException 401 ''Token invalid: Not enough segments'')
      | Jws alg key p \<Rightarrow>
          if alg \<noteq> ALGORITHM
            then Inl (HTTPException 401 ''Token invalid: The specified alg value is not allowed'')
          else if key \<noteq> PUBLIC_KEY cfg
            then Inl (HTTPException 401 ''Token invalid: Signature verification failed.'')
          else if jwt_expired (p ''exp'') now
            then Inl (HTTPException 401 ''Token expired'')
          else if check_audience \<and> p ''aud'' \<noteq> Some (CStr (AUDIENCE cfg))
            then Inl (HTTPException 401 ''Token invalid: Invalid audience'')
          else if check_issuer \<and> p ''iss'' \<noteq> Some (CStr (ISSUER cfg))
            then Inl (HTTPException 401 ''Invalid token issuer'')
          else case p ''jti'' of
             Some (CStr jti) \<Rightarrow>
               if jti \<in> revoked_jtis s then Inl (HTTPException 401 ''Token revoked'')
               else Inr p
           | Some (CStrs xs) \<Rightarrow> Inl (TypeError ''unhashable type: list'')
           | _ \<Rightarrow> Inr p) \<and>
   (tok = Some (Jws ALGORITHM (PUBLIC_KEY cfg) p') \<and> jwt_expired (p' ''exp'') now \<and>
    p' ''jti'' = Some (CStr j) \<and> j \<in> revoked_jtis s \<longrightarrow>
      fst (verify_jwt_token_strict cfg now tok check_audience check_issuer s) =
        Inl (HTTPException 401 ''Token expired'')) \<and>
   distinct [HTTPException 401 ''Missing token'',
             HTTPException 401 ''Token invalid: Signature verification failed.'',
             HTTPException 401 ''Token invalid: The specified alg value is not allowed'',
             HTTPException 401 ''Token expired'',
             HTTPException 401 ''Token invalid: Invalid audience'',
             HTTPException 401 ''Invalid token issuer'',
             HTTPException 401 ''Token revoked'']"
  by (cases tok; simp add: verify_jwt_token_strict_def split: token.split)
     (auto split: option.split claim.split)

text \<open>
  The running example: the refresh token of \<^verbatim>\<open>alice\<close>, retired by the rotation and
  presented after its expiry, is reported as expired.
\<close>

theorem verify_check_order_witness:
  "Some refresh_R = Some (Jws ALGORITHM (PUBLIC_KEY cfg0) (jws_payload refresh_R)) \<and>
   jwt_expired (jws_payload refresh_R ''exp'') 3000000 \<and>
   jws_payload refresh_R ''jti'' = Some (CStr ''r1'') \<and>
   ''r1'' \<in> revoked_jtis (snd (refresh_token cfg0 1001 ''a2'' ''r2'' req_R state2)) \<and>
   fst (verify_jwt_token_strict cfg0 3000000 (Some refresh_R) True True
          (snd (refresh_token cfg0 1001 ''a2'' ''r2'' req_R state2))) =
     Inl (HTTPException 401 ''Token expired'')"
proof -
  have a: "Some refresh_R = Some (Jws ALGORITHM (PUBLIC_KEY cfg0) (jws_payload refresh_R))"
    by (simp add: scenario_defs)
  have b: "jwt_expired (jws_payload refresh_R ''exp'') 3000000"
    by (simp add: scenario_defs)
  have d: "''r1'' \<in> revoked_jtis (snd (refresh_token cfg0 1001 ''a2'' ''r2'' req_R state2))"
    by (simp add: rotate_R_eval)
  show ?thesis
    using verify_check_order[of cfg0 3000000 "Some refresh_R" True True
        "snd (refresh_token cfg0 1001 ''a2'' ''r2'' req_R state2)" "jws_payload refresh_R" "''r1''"]
      a b refresh_R_claims(2) d
    by blast
qed

text \<open>
  C6.  For every token and every setting of the two flags the verification returns the
  state it was given: the tables and both sets are as they were before the call,
  whether the result is the payload or a rejection.
\<close>

theorem verify_read_only:
  "snd (verify_jwt_token_strict cfg now tok check_audience check_issuer s) = s"
  unfolding verify_jwt_token_strict_def
  by (simp split: sum.split jwt_error.split option.split claim.split)

section \<open>Issuing\<close>

lemma refresh_payload_dom:
  assumes "create_refresh_token_for_user cfg now uuid usr db expires_days s = (Inr r, s')"
  shows "dom (jws_payload (i_token r)) =
           {''iss'', ''sub'', ''aud'', ''iat'', ''nbf'', ''exp'', ''jti'', ''type'', ''user_id''}"
  using assms
  by (auto simp: create_refresh_token_for_user_def jwt_encode_def Let_def
      split: option.splits sum.splits if_splits)

text \<open>
  C7, as the claim states it, fails.  The refresh token that the login of the running
  example issues to \<^verbatim>\<open>alice\<close> carries \<^verbatim>\<open>user_id\<close>, with her id.
\<close>

theorem refresh_carries_user_id_counterexample:
  "create_refresh_token_for_user cfg0 1000 ''r1'' alice (Some Session) None state1 =
     (Inr \<lparr>i_token = refresh_R, i_jti = ''r1'', i_exp = 2593000\<rparr>, state2) \<and>
   jws_payload refresh_R ''user_id'' = Some (CInt 1) \<and>
   ''user_id'' \<in> dom (jws_payload refresh_R)"
  by (simp add: scenario_defs)

text \<open>
  C7, amended.  The payload of every issued refresh token has exactly the keys
  \<^verbatim>\<open>iss\<close>, \<^verbatim>\<open>sub\<close>, \<^verbatim>\<open>aud\<close>, \<^verbatim>\<open>iat\<close>, \<^verbatim>\<open>nbf\<close>, \<^verbatim>\<open>exp\<close>, \<^verbatim>\<open>jti\<close>, \<^verbatim>\<open>type\<close> and \<^verbatim>\<open>user_id\<close>:
  it carries no permissions, no role, no email and no name, and it does carry the
  user's id.  The payload of every issued access token carries \<^verbatim>\<open>user_id\<close>, \<^verbatim>\<open>email\<close>,
  \<^verbatim>\<open>role\<close>, \<^verbatim>\<open>name\<close> and \<^verbatim>\<open>permissions\<close>.
\<close>

theorem refresh_claims_fields:
  "(create_refresh_token_for_user cfg now uuid usr db expires_days s = (Inr r, s') \<longrightarrow>
      dom (jws_payload (i_token r)) =
        {''iss'', ''sub'', ''aud'', ''iat'', ''nbf'', ''exp'', ''jti'', ''type'', ''user_id''} \<and>
      jws_payload (i_token r) ''user_id'' = Some (CInt (u_id usr)) \<and>
      jws_payload (i_token r) ''type'' = Some (CStr ''refresh'')) \<and>
   (create_access_token_for_user cfg now2 uuid2 usr2 db2 extra expires_minutes s2 = (Inr a, s2') \<longrightarrow>
      {''user_id'', ''email'', ''role'', ''name'', ''permissions''} \<subseteq> dom (jws_payload (i_token a)))"
proof (intro conjI impI)
  assume r: "create_refresh_token_for_user cfg now uuid usr db expires_days s = (Inr r, s')"
  show "dom (jws_payload (i_token r)) =
        {''iss'', ''sub'', ''aud'', ''iat'', ''nbf'', ''exp'', ''jti'', ''type'', ''user_id''}"
    using refresh_payload_dom[OF r] .
  show "jws_payload (i_token r) ''user_id'' = Some (CInt (u_id usr))"
    using r
    by (auto simp: create_refresh_token_for_user_def jwt_encode_def Let_def
        split: option.splits sum.splits)
  show "jws_payload (i_token r) ''type'' = Some (CStr ''refresh'')"
    using r
    by (auto simp: create_refresh_token_for_user_def jwt_encode_def Let_def
        split: option.splits sum.splits)
next
  assume a: "create_access_token_for_user cfg now2 uuid2 usr2 db2 extra expires_minutes s2 =
               (Inr a, s2')"
  show "{''user_id'', ''email'', ''role'', ''name'', ''permissions''} \<subseteq>
          dom (jws_payload (i_token a))"
    using a
    by (auto simp: create_access_token_for_user_def jwt_encode_def Let_def map_add_def
        split: option.splits sum.splits)
qed

lemma issue_A_eval:
  "create_access_token_for_user cfg0 1000 ''a1'' alice (Some Session) None None state0 =
     (Inr \<lparr>i_token = access_A, i_jti = ''a1'', i_exp = 1900\<rparr>, state1)"
  by (simp add: scenario_defs)

lemma issue_R_eval:
  "create_refresh_token_for_user cfg0 1000 ''r1'' alice (Some Session) None state1 =
     (Inr \<lparr>i_token = refresh_R, i_jti = ''r1'', i_exp = 2593000\<rparr>, state2)"
  by (simp add: scenario_defs)

text \<open>The two tokens that the login of the running example issues to \<^verbatim>\<open>alice\<close>.\<close>

theorem refresh_claims_fields_witness:
  "dom (jws_payload refresh_R) =
     {''iss'', ''sub'', ''aud'', ''iat'', ''nbf'', ''exp'', ''jti'', ''type'', ''user_id''} \<and>
   jws_payload refresh_R ''user_id'' = Some (CInt 1) \<and>
   jws_payload refresh_R ''type'' = Some (CStr ''refresh'') \<and>
   {''user_id'', ''email'', ''role'', ''name'', ''permissions''} \<subseteq> dom (jws_payload access_A)"
proof -
  have u: "u_id alice = 1" by (simp add: alice_def)
  show ?thesis
    using refresh_claims_fields[where cfg = cfg0 and now = 1000 and uuid = "''r1''"
        and usr = alice and db = "Some Session" and expires_days = None and s = state1
        and r = "\<lparr>i_token = refresh_R, i_jti = ''r1'', i_exp = 2593000\<rparr>" and s' = state2
        and ?now2.0 = 1000 and ?uuid2.0 = "''a1''" and ?usr2.0 = alice
        and ?db2.0 = "Some Session" and extra = None and expires_minutes = None
        and ?s2.0 = state0
        and a = "\<lparr>i_token = access_A, i_jti = ''a1'', i_exp = 1900\<rparr>" and ?s2' = state1]
      issue_R_eval issue_A_eval
    by (simp add: u)
qed



end
